theory Spec2Isabelle
  imports Main
begin

section \<open>Values of the demo application\<close>

text \<open>
  The module \<^verbatim>\<open>src/app.py\<close> is duck-typed: \<^verbatim>\<open>greet\<close>, \<^verbatim>\<open>add\<close> and
  \<^verbatim>\<open>multiply\<close> accept any Python object. The embedding covers the objects whose
  behaviour under truth testing, \<^verbatim>\<open>+\<close>, \<^verbatim>\<open>*\<close> and string formatting is exact in
  HOL: \<^verbatim>\<open>None\<close>, booleans, unbounded integers and strings. Floating-point
  operands are outside the embedding. A string is a list of 8-bit characters; a
  character outside ASCII is written as its UTF-8 bytes, which is also what reaches
  standard output.
\<close>

datatype pyval = VNone | VBool bool | VInt int | VStr string

text \<open>
  \<^verbatim>\<open>ValueError\<close> carries its message. \<^verbatim>\<open>TypeError\<close> is what the interpreter raises
  when an operator is applied to operands that do not support it; the module never
  raises it itself, and its message is not modelled.
\<close>

datatype error = ValueError string | TypeError

subsection \<open>Truth testing\<close>

text \<open>\<^verbatim>\<open>not name\<close> tests the truth value: \<^verbatim>\<open>None\<close>, \<^verbatim>\<open>False\<close>, \<^verbatim>\<open>0\<close> and the
  empty string are false, every other value is true.\<close>

fun truthy :: "pyval \<Rightarrow> bool" where
  "truthy VNone = False"
| "truthy (VBool b) = b"
| "truthy (VInt i) = (i \<noteq> 0)"
| "truthy (VStr s) = (s \<noteq> [])"

subsection \<open>Formatting a value inside an f-string\<close>

definition digit_char :: "nat \<Rightarrow> char" where
  "digit_char d = ''0123456789'' ! d"

fun str_nat :: "nat \<Rightarrow> string" where
  "str_nat n =
     (if n < 10 then [digit_char n] else str_nat (n div 10) @ [digit_char (n mod 10)])"

declare str_nat.simps [simp del]

definition str_int :: "int \<Rightarrow> string" where
  "str_int i = (if i < 0 then CHR ''-'' # str_nat (nat (- i)) else str_nat (nat i))"

text \<open>A replacement field \<^verbatim>\<open>{v}\<close> with no format specification, and \<^verbatim>\<open>print(v)\<close>,
  both produce \<^verbatim>\<open>str(v)\<close>; a string is inserted as it is.\<close>

fun py_str :: "pyval \<Rightarrow> string" where
  "py_str VNone = ''None''"
| "py_str (VBool b) = (if b then ''True'' else ''False'')"
| "py_str (VInt i) = str_int i"
| "py_str (VStr s) = s"

subsection \<open>The operators \<^verbatim>\<open>+\<close> and \<^verbatim>\<open>*\<close>\<close>

text \<open>A boolean is an integer (\<^verbatim>\<open>False\<close> is 0, \<^verbatim>\<open>True\<close> is 1) wherever an
  integer operand is expected.\<close>

fun as_int :: "pyval \<Rightarrow> int option" where
  "as_int (VInt i) = Some i"
| "as_int (VBool b) = Some (if b then 1 else 0)"
| "as_int _ = None"

text \<open>\<^verbatim>\<open>a + b\<close>: integer addition, string concatenation, otherwise a
  \<^verbatim>\<open>TypeError\<close>.\<close>

fun py_add :: "pyval \<Rightarrow> pyval \<Rightarrow> error + pyval" where
  "py_add (VStr s) (VStr t) = Inr (VStr (s @ t))"
| "py_add a b =
     (case (as_int a, as_int b) of
        (Some x, Some y) \<Rightarrow> Inr (VInt (x + y))
      | _ \<Rightarrow> Inl TypeError)"

text \<open>\<^verbatim>\<open>a * b\<close>: integer multiplication, repetition of a string by an integer on
  either side (a count below one gives the empty string), otherwise a
  \<^verbatim>\<open>TypeError\<close>. The interpreter's limit on the size of a string is not
  modelled.\<close>

definition repeat :: "string \<Rightarrow> int \<Rightarrow> string" where
  "repeat s k = concat (replicate (nat k) s)"

fun py_mul :: "pyval \<Rightarrow> pyval \<Rightarrow> error + pyval" where
  "py_mul (VStr s) b =
     (case as_int b of Some k \<Rightarrow> Inr (VStr (repeat s k)) | None \<Rightarrow> Inl TypeError)"
| "py_mul a (VStr s) =
     (case as_int a of Some k \<Rightarrow> Inr (VStr (repeat s k)) | None \<Rightarrow> Inl TypeError)"
| "py_mul a b =
     (case (as_int a, as_int b) of
        (Some x, Some y) \<Rightarrow> Inr (VInt (x * y))
      | _ \<Rightarrow> Inl TypeError)"

section \<open>The module\<close>

text \<open>
  \<^verbatim>\<open>
  def greet(name):
      if not name:
          raise ValueError("Name cannot be empty")
      return f"Hello, {name}!"
  \<close>
\<close>

definition greet :: "pyval \<Rightarrow> error + pyval" where
  "greet name =
     (if \<not> truthy name then Inl (ValueError ''Name cannot be empty'')
      else Inr (VStr (''Hello, '' @ py_str name @ ''!'')))"

text \<open>\<^verbatim>\<open>def add(a, b): return a + b\<close>\<close>

definition add :: "pyval \<Rightarrow> pyval \<Rightarrow> error + pyval" where
  "add a b = py_add a b"

text \<open>\<^verbatim>\<open>def multiply(a, b): return a * b\<close>\<close>

definition multiply :: "pyval \<Rightarrow> pyval \<Rightarrow> error + pyval" where
  "multiply a b = py_mul a b"

subsection \<open>The entry point\<close>

text \<open>Standard output is the list of the lines printed so far; \<^verbatim>\<open>print\<close> appends
  one line.\<close>

type_synonym stdout = "string list"

definition print :: "pyval \<Rightarrow> stdout \<Rightarrow> stdout" where
  "print v out = out @ [py_str v]"

text \<open>The banner starts with U+1F680, four bytes in UTF-8.\<close>

definition banner :: string where
  "banner = [CHR 0xF0, CHR 0x9F, CHR 0x9A, CHR 0x80] @ '' Jenkins Demo Python App''"

text \<open>
  \<^verbatim>\<open>
  def main():
      print("<U+1F680> Jenkins Demo Python App")
      print(greet("Jenkins"))
      print(f"2 + 3 = {add(2, 3)}")
      print(f"4 * 5 = {multiply(4, 5)}")
  \<close>
  Nothing is caught: an error of a call ends \<^verbatim>\<open>main\<close> with the lines printed
  before it. On success \<^verbatim>\<open>main\<close> returns \<^verbatim>\<open>None\<close>.
\<close>

definition main :: "stdout \<Rightarrow> (error + pyval) \<times> stdout" where
  "main out0 =
     (let out1 = print (VStr banner) out0 in
      case greet (VStr ''Jenkins'') of
        Inl e \<Rightarrow> (Inl e, out1)
      | Inr g \<Rightarrow>
          let out2 = print g out1 in
          (case add (VInt 2) (VInt 3) of
             Inl e \<Rightarrow> (Inl e, out2)
           | Inr s \<Rightarrow>
               let out3 = print (VStr (''2 + 3 = '' @ py_str s)) out2 in
               (case multiply (VInt 4) (VInt 5) of
                  Inl e \<Rightarrow> (Inl e, out3)
                | Inr p \<Rightarrow>
                    let out4 = print (VStr (''4 * 5 = '' @ py_str p)) out3 in
                    (Inr VNone, out4))))"

subsection \<open>Whitespace\<close>



section \<open>Properties of the operators\<close>

lemma py_add_int: "py_add (VInt a) (VInt b) = Inr (VInt (a + b))"
  by simp

lemma py_mul_int: "py_mul (VInt a) (VInt b) = Inr (VInt (a * b))"
  by simp



lemma str_nat_5: "str_nat 5 = ''5''"
  by (simp add: str_nat.simps digit_char_def)

lemma str_nat_20: "str_nat 20 = ''20''"
  by (simp add: str_nat.simps digit_char_def)

section \<open>The greeting\<close>

text \<open>
  C1. For every non-empty name string \<open>n\<close>, \<^verbatim>\<open>greet\<close> returns the string
  \<^verbatim>\<open>"Hello, "\<close> followed by \<open>n\<close>, unchanged, followed by \<^verbatim>\<open>"!"\<close>; it returns a
  value and raises no error.
\<close>

theorem greet_nonempty:
  "n \<noteq> [] \<Longrightarrow> greet (VStr n) = Inr (VStr (''Hello, '' @ n @ ''!''))"
  by (simp add: greet_def)

theorem greet_nonempty_witness:
  "''John'' \<noteq> [] \<and> greet (VStr ''John'') = Inr (VStr ''Hello, John!'')"
  using greet_nonempty [of "''John''"] by simp





section \<open>Addition\<close>

text \<open>
  C3. For all integers \<open>a\<close> and \<open>b\<close>, \<^verbatim>\<open>add(a, b)\<close> returns the sum \<open>a + b\<close>.
\<close>

theorem add_int: "add (VInt a) (VInt b) = Inr (VInt (a + b))"
  by (simp add: add_def)

text \<open>
  C6. \<^verbatim>\<open>add\<close> is commutative on integers: \<^verbatim>\<open>add(a, b)\<close> and \<^verbatim>\<open>add(b, a)\<close>
  return the same value.
\<close>

theorem add_int_commute: "add (VInt a) (VInt b) = add (VInt b) (VInt a)"
  by (simp add: add_def add.commute)

text \<open>
  C8. \<^verbatim>\<open>add\<close> is not restricted to numbers: for all strings \<open>s\<close> and \<open>t\<close>,
  \<^verbatim>\<open>add(s, t)\<close> returns \<open>s\<close> followed by \<open>t\<close>.
\<close>

theorem add_str: "add (VStr s) (VStr t) = Inr (VStr (s @ t))"
  by (simp add: add_def)

section \<open>Multiplication\<close>

text \<open>
  C4. For all integers \<open>a\<close> and \<open>b\<close>, \<^verbatim>\<open>multiply(a, b)\<close> returns the product
  \<open>a * b\<close>, of the right sign when an operand is negative: \<^verbatim>\<open>multiply(-2, 3)\<close>
  is \<open>-6\<close>.
\<close>

theorem multiply_int:
  "multiply (VInt a) (VInt b) = Inr (VInt (a * b))
   \<and> multiply (VInt (- 2)) (VInt 3) = Inr (VInt (- 6))"
  by (simp add: multiply_def)

text \<open>
  C5. Zero absorbs: for every integer \<open>x\<close>, \<^verbatim>\<open>multiply(x, 0)\<close> and
  \<^verbatim>\<open>multiply(0, x)\<close> are both \<open>0\<close>.
\<close>

theorem multiply_zero:
  "multiply (VInt x) (VInt 0) = Inr (VInt 0) \<and> multiply (VInt 0) (VInt x) = Inr (VInt 0)"
  by (simp add: multiply_def)


section \<open>The entry point\<close>

text \<open>
  C9. \<^verbatim>\<open>main\<close> prints the banner, then calls \<^verbatim>\<open>greet\<close> with the literal
  \<^verbatim>\<open>"Jenkins"\<close>, \<^verbatim>\<open>add\<close> with the literals 2 and 3 and \<^verbatim>\<open>multiply\<close> with the
  literals 4 and 5, in this order, and prints each result before the next call. All
  three calls succeed, \<^verbatim>\<open>main\<close> returns normally, and it has added four lines to
  standard output: the banner, the greeting returned by \<^verbatim>\<open>greet\<close>, the line
  reporting the sum returned by \<^verbatim>\<open>add\<close> (after the fixed text \<^verbatim>\<open>2 + 3 = \<close>) and
  the line reporting the product returned by \<^verbatim>\<open>multiply\<close> (after the fixed text
  \<^verbatim>\<open>4 * 5 = \<close>).
\<close>

theorem main_output:
  "(\<exists>g s p. greet (VStr ''Jenkins'') = Inr g
      \<and> add (VInt 2) (VInt 3) = Inr s
      \<and> multiply (VInt 4) (VInt 5) = Inr p
      \<and> main out = (Inr VNone,
           out @ [banner, py_str g, ''2 + 3 = '' @ py_str s, ''4 * 5 = '' @ py_str p]))
   \<and> main out = (Inr VNone,
        out @ [banner, ''Hello, Jenkins!'', ''2 + 3 = 5'', ''4 * 5 = 20''])"
  by (simp add: main_def print_def greet_def add_def multiply_def str_int_def
      str_nat_5 str_nat_20)

end
